theory Spec2Isabelle
  imports Complex_Main "HOL-Library.Product_Lexorder"
begin

section \<open>Data model\<close>

text \<open>
  The scraper works on the text items of one PDF page. Each item is an \<open>Element\<close>: a
  bounding \<open>Rectangle\<close> together with its text (\<open>interface Element extends Rectangle\<close>).
  The field \<open>confidence\<close> of the interface is never read by any function embedded below and
  is not set when the elements of a page are built, so the record leaves it out.

  JavaScript numbers are modelled by exact rationals: every finite double is a rational,
  \<open>Math.max\<close>, \<open>Math.min\<close> and the comparisons are exact on doubles, and the sums, products
  and quotients of the source are taken without rounding.
\<close>

record Rectangle =
  x :: rat
  y :: rat
  width :: rat
  height :: rat

record Element = Rectangle +
  "text" :: string

section \<open>Strings and library functions\<close>

text \<open>
  Strings are lists of 8-bit characters. The functions of this section are those of the
  JavaScript runtime and of the libraries \<open>didyoumean2\<close> and \<open>moment\<close> that the scraper
  calls; they are written out here for the characters a \<open>char\<close> can hold.
\<close>

text \<open>The white space of \<open>String.prototype.trim\<close> and of the regular expression \<open>\s\<close>.\<close>

definition isWhiteSpace :: "char \<Rightarrow> bool" where
  "isWhiteSpace c \<longleftrightarrow>
     c \<in> set [CHR 0x09, CHR 0x0A, CHR 0x0B, CHR 0x0C, CHR 0x0D, CHR 0x20, CHR 0xA0]"

definition trim :: "string \<Rightarrow> string" where
  "trim s = rev (dropWhile isWhiteSpace (rev (dropWhile isWhiteSpace s)))"

text \<open>\<open>s.replace(/\s/g, "")\<close>\<close>

definition removeWhiteSpace :: "string \<Rightarrow> string" where
  "removeWhiteSpace s = filter (\<lambda>c. \<not> isWhiteSpace c) s"

text \<open>\<open>s.replace(/\s+/g, " ")\<close>: every maximal run of white space becomes one space.\<close>

function collapseWhiteSpace :: "string \<Rightarrow> string" where
  "collapseWhiteSpace [] = []"
| "collapseWhiteSpace (c # cs) =
     (if isWhiteSpace c then CHR '' '' # collapseWhiteSpace (dropWhile isWhiteSpace cs)
      else c # collapseWhiteSpace cs)"
  by pat_completeness auto
termination
  by (relation "measure length") (auto simp: less_Suc_eq_le length_dropWhile_le)

definition isDigit :: "char \<Rightarrow> bool" where
  "isDigit c \<longleftrightarrow> (48::nat) \<le> of_char c \<and> of_char c \<le> (57::nat)"

definition digitValue :: "char \<Rightarrow> nat" where
  "digitValue c = of_char c - 48"

definition digitsToNat :: "string \<Rightarrow> nat" where
  "digitsToNat s = foldl (\<lambda>n c. 10 * n + digitValue c) 0 s"

definition toLowerChar :: "char \<Rightarrow> char" where
  "toLowerChar c =
     (if (65::nat) \<le> of_char c \<and> of_char c \<le> (90::nat) then char_of (of_char c + (32::nat)) else c)"

definition toLowerCase :: "string \<Rightarrow> string" where
  "toLowerCase s = map toLowerChar s"

text \<open>\<open>s.split(" ")\<close>: the pieces between single spaces; the result is never empty.\<close>

fun split :: "string \<Rightarrow> string list" where
  "split [] = [[]]"
| "split (c # cs) =
     (if c = CHR '' '' then [] # split cs
      else (case split cs of [] \<Rightarrow> [[c]] | t # ts \<Rightarrow> (c # t) # ts))"

text \<open>\<open>tokens.join(separator)\<close>\<close>

fun join :: "string \<Rightarrow> string list \<Rightarrow> string" where
  "join separator [] = []"
| "join separator [t] = t"
| "join separator (t # ts) = t @ separator @ join separator ts"

text \<open>The decimal digits of a natural number, as a template literal prints it.\<close>

fun showNat :: "nat \<Rightarrow> string" where
  "showNat n =
     (if n < 10 then [char_of (48 + n)] else showNat (n div 10) @ [char_of (48 + n mod 10)])"

declare showNat.simps [simp del]

subsection \<open>Conversion of a string to a number\<close>

text \<open>
  \<open>Number(s)\<close> applies the grammar of numeric string literals to the trimmed string: the
  empty string is 0; a literal is a binary, octal or hexadecimal integer with its prefix, or
  an optionally signed \<open>Infinity\<close> or decimal literal with optional fraction and exponent;
  anything else is \<open>NaN\<close>. \<open>Num v\<close> stands for the double nearest to \<open>v\<close>.
\<close>

datatype jsNumber = NaN | Num rat | PlusInfinity | MinusInfinity

definition radixDigit :: "nat \<Rightarrow> char \<Rightarrow> bool" where
  "radixDigit radix c \<longleftrightarrow>
     (let n = (of_char c :: nat)
      in (48 \<le> n \<and> n < 48 + min radix 10) \<or>
         (radix = 16 \<and> ((65 \<le> n \<and> n \<le> 70) \<or> (97 \<le> n \<and> n \<le> 102))))"

definition radixDigitValue :: "char \<Rightarrow> nat" where
  "radixDigitValue c =
     (let n = (of_char c :: nat)
      in if n \<le> 57 then n - 48 else if n \<le> 70 then n - 55 else n - 87)"

definition radixStep :: "nat \<Rightarrow> nat \<Rightarrow> char \<Rightarrow> nat" where
  "radixStep radix n c = radix * n + radixDigitValue c"

definition nonDecimalIntegerLiteral :: "nat \<Rightarrow> string \<Rightarrow> jsNumber" where
  "nonDecimalIntegerLiteral radix ds =
     (if ds \<noteq> [] \<and> list_all (radixDigit radix) ds
      then Num (of_nat (foldl (radixStep radix) 0 ds)) else NaN)"

text \<open>The exponent part that ends a decimal literal, if any; \<open>None\<close> when it is malformed.\<close>

definition exponentPart :: "string \<Rightarrow> int option" where
  "exponentPart s =
     (if s = [] then Some 0
      else if take 1 s = ''e'' \<or> take 1 s = ''E''
      then (let r = drop 1 s;
                ds = (if take 1 r = ''+'' \<or> take 1 r = ''-'' then drop 1 r else r)
            in if ds \<noteq> [] \<and> list_all isDigit ds
               then Some (if take 1 r = ''-'' then - int (digitsToNat ds) else int (digitsToNat ds))
               else None)
      else None)"

definition scale10 :: "rat \<Rightarrow> int \<Rightarrow> rat" where
  "scale10 v e = (if 0 \<le> e then v * 10 ^ nat e else v / 10 ^ nat (- e))"

definition strUnsignedDecimalLiteral :: "string \<Rightarrow> jsNumber" where
  "strUnsignedDecimalLiteral s =
     (if s = ''Infinity'' then PlusInfinity
      else (let integerDigits = takeWhile isDigit s;
                r1 = drop (length integerDigits) s;
                fractionDigits = (if take 1 r1 = ''.'' then takeWhile isDigit (drop 1 r1) else []);
                r2 = (if take 1 r1 = ''.'' then drop (Suc (length fractionDigits)) r1 else r1)
            in if integerDigits = [] \<and> fractionDigits = [] then NaN
               else (case exponentPart r2 of
                       None \<Rightarrow> NaN
                     | Some e \<Rightarrow>
                         Num (scale10 (of_nat (digitsToNat integerDigits) +
                                of_nat (digitsToNat fractionDigits) / 10 ^ length fractionDigits) e))))"

definition negate :: "jsNumber \<Rightarrow> jsNumber" where
  "negate n = (case n of NaN \<Rightarrow> NaN | Num v \<Rightarrow> Num (- v)
     | PlusInfinity \<Rightarrow> MinusInfinity | MinusInfinity \<Rightarrow> PlusInfinity)"

definition Number :: "string \<Rightarrow> jsNumber" where
  "Number s =
     (let t = trim s
      in if t = [] then Num 0
         else if take 2 t = ''0x'' \<or> take 2 t = ''0X'' then nonDecimalIntegerLiteral 16 (drop 2 t)
         else if take 2 t = ''0o'' \<or> take 2 t = ''0O'' then nonDecimalIntegerLiteral 8 (drop 2 t)
         else if take 2 t = ''0b'' \<or> take 2 t = ''0B'' then nonDecimalIntegerLiteral 2 (drop 2 t)
         else if take 1 t = ''-'' then negate (strUnsignedDecimalLiteral (drop 1 t))
         else if take 1 t = ''+'' then strUnsignedDecimalLiteral (drop 1 t)
         else strUnsignedDecimalLiteral t)"

text \<open>
  The comparison \<open>n < 1000\<close> of doubles. The doubles next to 1000 are \<open>1000 - 2\<^sup>-\<^sup>4\<^sup>3\<close> and 1000
  itself, and their midpoint rounds to 1000, so the double nearest to \<open>v\<close> is below 1000 exactly
  when \<open>v\<close> is below that midpoint. A comparison with \<open>NaN\<close> is false.
\<close>

definition lessThan1000 :: "jsNumber \<Rightarrow> bool" where
  "lessThan1000 n =
     (case n of NaN \<Rightarrow> False | Num v \<Rightarrow> v < 1000 - 1 / 2 ^ 44
      | PlusInfinity \<Rightarrow> False | MinusInfinity \<Rightarrow> True)"

subsection \<open>The edit distance of \<open>didyoumean2\<close>\<close>

text \<open>
  The Levenshtein distance (package \<open>leven\<close>), computed row by row: \<open>leven_row c t row left\<close>
  is the rest of the row for the character \<open>c\<close> of the first string, from the row before it.
\<close>

fun leven_row :: "char \<Rightarrow> string \<Rightarrow> nat list \<Rightarrow> nat \<Rightarrow> nat list" where
  "leven_row c (d # ds) (diag # up # rest) left =
     (let v = min (min (up + 1) (left + 1)) (diag + (if c = d then 0 else 1))
      in v # leven_row c ds (up # rest) v)"
| "leven_row c _ _ left = []"

definition leven_step :: "string \<Rightarrow> nat list \<Rightarrow> char \<Rightarrow> nat list" where
  "leven_step t row c = (hd row + 1) # leven_row c t row (hd row + 1)"

definition leven :: "string \<Rightarrow> string \<Rightarrow> nat" where
  "leven s t = last (foldl (leven_step t) [0 ..< Suc (length t)] s)"

text \<open>
  \<open>normalizeString\<close> of \<open>didyoumean2\<close> under the options the scraper passes
  (\<open>caseSensitive: false\<close>, spaces trimmed): trim, collapse runs of white space, lower case.
\<close>

definition normalizeString :: "string \<Rightarrow> string" where
  "normalizeString s = toLowerCase (collapseWhiteSpace (trim s))"

text \<open>
  \<open>didyoumean(input, matchList, { caseSensitive: false, returnType: "first-closest-match",
  thresholdType: "edit-distance", threshold: threshold, trimSpace: true })\<close>: the first entry
  of the list whose distance to the input is the smallest of the list, when that distance is
  within the threshold; \<open>None\<close> is the library's \<open>null\<close>.
\<close>

definition scoreProcessor :: "string \<Rightarrow> string \<Rightarrow> nat" where
  "scoreProcessor normalizedInput matchItem = leven normalizedInput (normalizeString matchItem)"

definition checkIfMatched :: "nat \<Rightarrow> nat \<Rightarrow> string \<times> nat \<Rightarrow> bool" where
  "checkIfMatched threshold marginValue m \<longleftrightarrow> snd m \<le> threshold \<and> snd m = marginValue"

definition didyoumean :: "string \<Rightarrow> string list \<Rightarrow> nat \<Rightarrow> string option" where
  "didyoumean input matchList threshold =
     (let scores = map (scoreProcessor (normalizeString input)) matchList
      in case scores of
           [] \<Rightarrow> None
         | s # ss \<Rightarrow>
             map_option fst
               (find (checkIfMatched threshold (fold min ss s)) (zip matchList scores)))"

subsection \<open>Strict date parsing of \<open>moment\<close>\<close>

definition isLeapYear :: "nat \<Rightarrow> bool" where
  "isLeapYear year \<longleftrightarrow> year mod 4 = 0 \<and> (year mod 400 = 0 \<or> year mod 100 \<noteq> 0)"

definition daysInMonth :: "nat \<Rightarrow> nat \<Rightarrow> nat" where
  "daysInMonth year month =
     (if month = 2 then (if isLeapYear year then 29 else 28)
      else if month \<in> set [4, 6, 9, 11] then 30 else 31)"

text \<open>
  \<open>moment(s, "D/MM/YYYY", true)\<close>: in strict mode the whole input is one or two digits of
  the day, a slash, two digits of the month, a slash and four digits of the year, and the
  date exists in the calendar. The result is \<open>(year, month, day)\<close>; \<open>None\<close> is a moment
  whose \<open>isValid()\<close> is false.
\<close>

definition moment :: "string \<Rightarrow> (nat \<times> nat \<times> nat) option" where
  "moment s =
     (let dayDigits = takeWhile isDigit (take 2 s);
          r = drop (length dayDigits) s;
          monthDigits = take 2 (drop 1 r);
          yearDigits = drop 4 r
      in if dayDigits \<noteq> [] \<and> length r = 8 \<and> take 1 r = ''/'' \<and> take 1 (drop 3 r) = ''/'' \<and>
            list_all isDigit monthDigits \<and> list_all isDigit yearDigits
         then (let day = digitsToNat dayDigits;
                   month = digitsToNat monthDigits;
                   year = digitsToNat yearDigits
               in if 1 \<le> month \<and> month \<le> 12 \<and> 1 \<le> day \<and> day \<le> daysInMonth year month
                  then Some (year, month, day) else None)
         else None)"

definition padZero :: "nat \<Rightarrow> nat \<Rightarrow> string" where
  "padZero n k = replicate (n - length (showNat k)) CHR ''0'' @ showNat k"

text \<open>\<open>m.format("YYYY-MM-DD")\<close>\<close>

definition format :: "nat \<times> nat \<times> nat \<Rightarrow> string" where
  "format m = (case m of (year, month, day) \<Rightarrow>
     padZero 4 year @ ''-'' @ padZero 2 month @ ''-'' @ padZero 2 day)"

section \<open>Geometry\<close>

text \<open>\<open>Number.MAX_VALUE\<close>, the largest finite double: \<open>2\<^sup>1\<^sup>0\<^sup>2\<^sup>4 - 2\<^sup>9\<^sup>7\<^sup>1\<close>.\<close>

definition MAX_VALUE :: rat where
  "MAX_VALUE =
     179769313486231570814527423731704356798070567525844996598917476803157260780028538760589558632766878171540458953514382464234321326889464182768467546703537516986049910576551282076245490090389328944075868508455133942304583236903222948165808559332123348274797826204144723168738177180919299881250404026184124858368"

lemma MAX_VALUE_eq: "MAX_VALUE = 2 ^ 1024 - 2 ^ 971"
  by (simp add: MAX_VALUE_def)

text \<open>Constructs a rectangle based on the intersection of the two specified rectangles.\<close>

definition intersect :: "'a Rectangle_scheme \<Rightarrow> 'b Rectangle_scheme \<Rightarrow> Rectangle" where
  "intersect rectangle1 rectangle2 =
     (let x1 = max (x rectangle1) (x rectangle2);
          y1 = max (y rectangle1) (y rectangle2);
          x2 = min (x rectangle1 + width rectangle1) (x rectangle2 + width rectangle2);
          y2 = min (y rectangle1 + height rectangle1) (y rectangle2 + height rectangle2)
      in if x2 \<ge> x1 \<and> y2 \<ge> y1
         then \<lparr> x = x1, y = y1, width = x2 - x1, height = y2 - y1 \<rparr>
         else \<lparr> x = 0, y = 0, width = 0, height = 0 \<rparr>)"

text \<open>Calculates the area of a rectangle.\<close>

definition getArea :: "'a Rectangle_scheme \<Rightarrow> rat" where
  "getArea rectangle = width rectangle * height rectangle"

subsection \<open>Intersection of rectangles\<close>



subsection \<open>Rows and neighbours\<close>

text \<open>Determines whether there is vertical overlap between two elements.\<close>

definition isVerticalOverlap :: "Element \<Rightarrow> Element \<Rightarrow> bool" where
  "isVerticalOverlap element1 element2 \<longleftrightarrow>
     y element2 < y element1 + height element1 \<and> y element2 + height element2 > y element1"

text \<open>
  Gets the percentage of vertical overlap between two elements, as a share of the height of
  the second. Where the second element has height zero the source divides zero by zero and
  every comparison \<open>> 50\<close> with the result is false; the quotient \<open>0 / 0 = 0\<close> of the rationals
  gives the same comparisons.
\<close>

definition getVerticalOverlapPercentage :: "Element \<Rightarrow> Element \<Rightarrow> rat" where
  "getVerticalOverlapPercentage element1 element2 =
     (let y1 = max (y element1) (y element2);
          y2 = min (y element1 + height element1) (y element2 + height element2)
      in if y2 < y1 then 0 else ((y2 - y1) * 100) / height element2)"

text \<open>
  Gets the highest Y co-ordinate of all elements that are considered to be in the same row as
  the specified element.
\<close>

definition rowTopStep :: "Element \<Rightarrow> rat \<Rightarrow> Element \<Rightarrow> rat" where
  "rowTopStep startElement top0 e =
     (if y e < y startElement + height startElement \<and> y e + height e > y startElement
      then (if getVerticalOverlapPercentage startElement e > 50
            then (if y e < top0 then y e else top0)
            else top0)
      else top0)"

definition getRowTop :: "Element list \<Rightarrow> Element \<Rightarrow> rat" where
  "getRowTop elements startElement = foldl (rowTopStep startElement) (y startElement) elements"

text \<open>Calculates the square of the Euclidean distance between two elements.\<close>

definition calculateDistance :: "Element \<Rightarrow> Element \<Rightarrow> rat" where
  "calculateDistance element1 element2 =
     (let point1x = x element1 + width element1;
          point1y = y element1 + height element1 / 2;
          point2x = x element2;
          point2y = y element2 + height element2 / 2
      in if point2x < point1x - width element1 / 5 then MAX_VALUE
         else (point2x - point1x) * (point2x - point1x) + (point2y - point1y) * (point2y - point1y))"

text \<open>
  Gets the element immediately to the right of the specified element. The source starts the
  search from a placeholder element without text at \<open>(MAX_VALUE, MAX_VALUE)\<close> and returns
  \<open>undefined\<close> when the placeholder is still the closest at the end; the distance to the
  placeholder overflows to \<open>Infinity\<close>, so the first element that passes the other tests
  replaces it. Here the placeholder is \<open>None\<close>.
\<close>

definition isCloser :: "Element \<Rightarrow> Element \<Rightarrow> Element option \<Rightarrow> bool" where
  "isCloser e rightElement closestElement =
     (case closestElement of
        None \<Rightarrow> True
      | Some closest \<Rightarrow> calculateDistance e rightElement < calculateDistance e closest)"

definition rightElementStep :: "Element \<Rightarrow> Element option \<Rightarrow> Element \<Rightarrow> Element option" where
  "rightElementStep e closestElement rightElement =
     (if isVerticalOverlap e rightElement \<and>
         getVerticalOverlapPercentage e rightElement > 50 \<and>
         x rightElement > x e + width e \<and>
         x rightElement - (x e + width e) < 30 \<and>
         isCloser e rightElement closestElement
      then Some rightElement else closestElement)"

definition getRightElement :: "Element list \<Rightarrow> Element \<Rightarrow> Element option" where
  "getRightElement elements e = foldl (rightElementStep e) None elements"

section \<open>Diagnostics and results\<close>

text \<open>
  The messages the scraper writes with \<open>console.log\<close>, each with the text it interpolates:
  \<^item> \<open>ReadingPage i n\<close>: ``Reading and parsing applications from page i of n.'';
  \<^item> \<open>HeadingNotFound h s\<close>: ``No development applications can be parsed from the current
    page because the "h" column heading was not found.  Elements: s'';
  \<^item> \<open>ApplicationNumberNotFound s\<close>: ``Could not find the application number on the PDF page
    for the current development application.  The development application will be ignored.
    Elements: s'';
  \<^item> \<open>ApplicationDateNotFound s\<close>: the same for the application date;
  \<^item> \<open>FoundApplicationNumber n\<close>: ``Found "n".'';
  \<^item> \<open>SuburbNotRecognised a\<close>: ``The state and post code will not be added because the
    suburb was not recognised: a''.
\<close>

datatype diagnostic =
    ReadingPage nat nat
  | HeadingNotFound string string
  | ApplicationNumberNotFound string
  | ApplicationDateNotFound string
  | FoundApplicationNumber string
  | SuburbNotRecognised string

text \<open>An uncaught JavaScript exception.\<close>

datatype error = TypeError

record DevelopmentApplication =
  applicationNumber :: string
  address :: string
  description :: string
  informationUrl :: string
  commentUrl :: string
  scrapeDate :: string
  receivedDate :: string

definition CommentUrl :: string where
  "CommentUrl = ''mailto:light@light.sa.gov.au''"

text \<open>\<open>elements.map(element => `[${element.text}]`).join("")\<close>\<close>

definition bracketed :: "Element \<Rightarrow> string" where
  "bracketed e = ''['' @ text e @ '']''"

definition elementSummary :: "Element list \<Rightarrow> string" where
  "elementSummary elements = concat (map bracketed elements)"

section \<open>Formatting an address\<close>

text \<open>
  The global \<open>SuburbNames\<close> object is an argument here: an association list in the order of
  its keys, with \<open>Object.keys\<close> as \<open>map fst\<close> and the property read as \<open>map_of\<close>.

  The loop pops tokens from the end of the array until a valid suburb name is encountered:
  for \<open>index\<close> from 1 to 4 it matches the last \<open>index\<close> tokens against the suburb names and
  stops at the first match, with the suburb and the tokens that remain.
\<close>

function suburbLoop ::
  "(string \<times> string) list \<Rightarrow> string list \<Rightarrow> nat \<Rightarrow> (string \<times> string list) option" where
  "suburbLoop SuburbNames tokens index =
     (if index \<le> 4
      then (case didyoumean (join '' '' (drop (length tokens - index) tokens))
                   (map fst SuburbNames) 2 of
              None \<Rightarrow> suburbLoop SuburbNames tokens (index + 1)
            | Some suburbNameMatch \<Rightarrow>
                (case map_of SuburbNames suburbNameMatch of
                   None \<Rightarrow> None
                 | Some suburbName \<Rightarrow> Some (suburbName, take (length tokens - index) tokens)))
      else None)"
  by pat_completeness auto
termination
  by (relation "measure (\<lambda>(SuburbNames, tokens, index). 5 - index)") auto

declare suburbLoop.simps [simp del]

text \<open>Formats (and corrects) an address. The result carries the message logged, if any.\<close>

definition formatAddress :: "(string \<times> string) list \<Rightarrow> string \<Rightarrow> diagnostic list \<times> string" where
  "formatAddress SuburbNames address0 =
     (let address = trim address0
      in if address = [] then ([], [])
         else (case suburbLoop SuburbNames (split address) 1 of
                 None \<Rightarrow> ([SuburbNotRecognised address], address)
               | Some (suburbName, tokens) \<Rightarrow>
                   (let streetName = trim (join '' '' tokens)
                    in ([], trim (streetName @ (if streetName = [] then [] else '', '') @ suburbName)))))"

section \<open>Parsing one development application\<close>

text \<open>
  The elements from which the application number is read: left of the ``Applicant'' heading
  and less than two heights of the start element below its top.
\<close>

definition isApplicationNumberElement :: "Element \<Rightarrow> Element \<Rightarrow> Element \<Rightarrow> bool" where
  "isApplicationNumberElement applicantElement startElement e \<longleftrightarrow>
     x e < x applicantElement \<and> y e < y startElement + 2 * height startElement"

text \<open>The regular expression \<open>/\/[0-9]{4}$/\<close>: the text ends with a slash and four digits.\<close>

definition endsWithSlashAndFourDigits :: "string \<Rightarrow> bool" where
  "endsWithSlashAndFourDigits s \<longleftrightarrow>
     5 \<le> length s \<and> take 1 (drop (length s - 5) s) = ''/'' \<and>
     list_all isDigit (drop (length s - 4) s)"

text \<open>
  \<open>applicationNumberElements.slice(0, index).map(element => element.text).join("")
  .replace(/\s/g, "")\<close>
\<close>

definition applicationNumberText :: "Element list \<Rightarrow> nat \<Rightarrow> string" where
  "applicationNumberText applicationNumberElements index =
     removeWhiteSpace (concat (map text (take index applicationNumberElements)))"

text \<open>The loop over \<open>index\<close> from 1 to the number of elements, left at the first match.\<close>

function applicationNumberLoop :: "Element list \<Rightarrow> nat \<Rightarrow> string option" where
  "applicationNumberLoop applicationNumberElements index =
     (if index \<le> length applicationNumberElements
      then (if endsWithSlashAndFourDigits (applicationNumberText applicationNumberElements index)
            then Some (applicationNumberText applicationNumberElements index)
            else applicationNumberLoop applicationNumberElements (index + 1))
      else None)"
  by pat_completeness auto
termination
  by (relation "measure (\<lambda>(applicationNumberElements, index).
        Suc (length applicationNumberElements) - index)") auto

declare applicationNumberLoop.simps [simp del]

text \<open>
  \<open>elements.filter(...).sort(xComparer)\<close>, and the loop over it. \<open>xComparer\<close> compares the
  \<open>x\<close> of two elements; the sort is taken to be stable.
\<close>

definition applicationNumberElements :: "Element list \<Rightarrow> Element \<Rightarrow> Element \<Rightarrow> Element list" where
  "applicationNumberElements elements startElement applicantElement =
     sort_key x (filter (isApplicationNumberElement applicantElement startElement) elements)"

definition findApplicationNumber :: "Element list \<Rightarrow> Element \<Rightarrow> Element \<Rightarrow> string option" where
  "findApplicationNumber elements startElement applicantElement =
     applicationNumberLoop (applicationNumberElements elements startElement applicantElement) 1"

text \<open>
  The rectangle where a date is expected for an element: the column of the ``Application''
  heading at the height of the element.
\<close>

definition dateRectangle :: "Element \<Rightarrow> Element \<Rightarrow> Rectangle" where
  "dateRectangle applicationElement e =
     \<lparr> x = x applicationElement, y = y e,
       width = width applicationElement, height = height applicationElement \<rparr>"

definition isDateElement :: "Element \<Rightarrow> Element \<Rightarrow> bool" where
  "isDateElement applicationElement e \<longleftrightarrow>
     getArea e > 0 \<and>
     getArea e > (1 / 2) * getArea (dateRectangle applicationElement e) \<and>
     getArea (intersect e (dateRectangle applicationElement e)) > (3 / 4) * getArea e"

definition isReceivedDateElement :: "Element \<Rightarrow> Element \<Rightarrow> Element \<Rightarrow> bool" where
  "isReceivedDateElement applicationElement applicationDateElement e \<longleftrightarrow>
     isDateElement applicationElement e \<and>
     y e > y applicationDateElement + height applicationDateElement \<and>
     moment (trim (text e)) \<noteq> None"

definition isAddressElement :: "Element \<Rightarrow> Element \<Rightarrow> Element \<Rightarrow> bool" where
  "isAddressElement applicationDateElement proposalElement e \<longleftrightarrow>
     x e > x applicationDateElement + width applicationDateElement \<and>
     getVerticalOverlapPercentage applicationDateElement e > 50 \<and>
     x e < x proposalElement - height proposalElement / 2"

definition isDescriptionElement :: "Element \<Rightarrow> Element \<Rightarrow> Element \<Rightarrow> bool" where
  "isDescriptionElement proposalElement referralsElement e \<longleftrightarrow>
     x e > x proposalElement - height proposalElement / 2 \<and> x e < x referralsElement"

text \<open>
  One round of the loop that joins the description: the state is the description so far and
  \<open>previousY\<close>, which is \<open>undefined\<close> before the first element.
\<close>

definition descriptionStep :: "string \<times> rat option \<Rightarrow> Element \<Rightarrow> string \<times> rat option" where
  "descriptionStep state descriptionElement =
     (case state of (soFar, previousY) \<Rightarrow>
        ((if (case previousY of None \<Rightarrow> False
              | Some p \<Rightarrow> y descriptionElement > p + height descriptionElement / 2)
          then soFar @ '' '' else soFar) @ text descriptionElement,
         Some (y descriptionElement)))"

definition getDescription :: "Element list \<Rightarrow> Element \<Rightarrow> Element option \<Rightarrow> string" where
  "getDescription elements proposalElement referralsElement =
     (case referralsElement of
        None \<Rightarrow> []
      | Some referrals \<Rightarrow>
          fst (foldl descriptionStep ([], None)
                 (filter (isDescriptionElement proposalElement referrals) elements)))"

definition getAddressText :: "Element list \<Rightarrow> Element \<Rightarrow> Element \<Rightarrow> string" where
  "getAddressText elements applicationDateElement proposalElement =
     concat (map text (sort_key x
       (filter (isAddressElement applicationDateElement proposalElement) elements)))"

text \<open>
  Parses the details from the elements associated with a single development application.
  \<open>today\<close> is \<open>moment().format("YYYY-MM-DD")\<close>, the day of the run. The result is the list of
  messages logged and the application, \<open>None\<close> for \<open>undefined\<close>.

  As in the source, \<open>receivedDateElement\<close> is searched for and falls back to the application
  date element, and \<open>receivedDate\<close> is then parsed from the text of
  \<open>applicationDateElement\<close>.
\<close>

definition parseApplicationElements ::
  "(string \<times> string) list \<Rightarrow> string \<Rightarrow> Element list \<Rightarrow> Element \<Rightarrow> Element \<Rightarrow> Element \<Rightarrow>
   Element \<Rightarrow> Element option \<Rightarrow> string \<Rightarrow> diagnostic list \<times> DevelopmentApplication option" where
  "parseApplicationElements SuburbNames today elements startElement applicantElement
     applicationElement proposalElement referralsElement url =
     (case findApplicationNumber elements startElement applicantElement of
        None \<Rightarrow> ([ApplicationNumberNotFound (elementSummary elements)], None)
      | Some number \<Rightarrow>
          (case find (isDateElement applicationElement) elements of
             None \<Rightarrow>
               ([FoundApplicationNumber number,
                 ApplicationDateNotFound (elementSummary elements)], None)
           | Some applicationDateElement \<Rightarrow>
               (let receivedDateElement =
                      (case find (isReceivedDateElement applicationElement applicationDateElement)
                              elements of
                         None \<Rightarrow> applicationDateElement
                       | Some e \<Rightarrow> e);
                    receivedDate = moment (trim (text applicationDateElement));
                    formatted = formatAddress SuburbNames
                      (getAddressText elements applicationDateElement proposalElement);
                    description0 = getDescription elements proposalElement referralsElement
                in (FoundApplicationNumber number # fst formatted,
                    Some \<lparr> applicationNumber = number,
                           address = snd formatted,
                           description =
                             (if trim description0 = [] then ''No Description Provided''
                              else description0),
                           informationUrl = url,
                           commentUrl = CommentUrl,
                           scrapeDate = today,
                           receivedDate =
                             (case receivedDate of None \<Rightarrow> [] | Some m \<Rightarrow> format m) \<rparr>))))"

section \<open>Finding the start elements\<close>

text \<open>
  A match of the loop that looks for ``Lodgement'': the element that ended the text and the
  edit distance threshold at which the text matched. As in the source, a match has no other
  property; in particular it has no \<open>text\<close>.
\<close>

record Match =
  element :: Element
  threshold :: nat

definition startsWithL :: "Element \<Rightarrow> bool" where
  "startsWithL e \<longleftrightarrow> take 1 (toLowerCase (trim (text e))) = ''l''"

text \<open>\<open>rightElements.map(element => element.text).join("").replace(/\s/g, "").toLowerCase()\<close>\<close>

definition joinedText :: "Element list \<Rightarrow> string" where
  "joinedText rightElements = toLowerCase (removeWhiteSpace (concat (map text rightElements)))"

text \<open>The threshold at which a text matches ``Lodgement'': 0 when equal, else 1, else 2.\<close>

definition lodgementThreshold :: "string \<Rightarrow> nat option" where
  "lodgementThreshold t =
     (if t = ''lodgement'' then Some 0
      else if didyoumean t [''Lodgement''] 1 \<noteq> None then Some 1
      else if didyoumean t [''Lodgement''] 2 \<noteq> None then Some 2
      else None)"

definition pushMatch :: "Match list \<Rightarrow> Element \<Rightarrow> string \<Rightarrow> Match list" where
  "pushMatch matches rightElement t =
     (if length t \<ge> 8
      then (case lodgementThreshold t of
              None \<Rightarrow> matches
            | Some k \<Rightarrow> matches @ [\<lparr> element = rightElement, threshold = k \<rparr>])
      else matches)"

text \<open>
  The \<open>do ... while\<close> loop: extracts up to 10 elements to the right of the element that has
  text starting with ``l'', joins their text and collects the matches.
\<close>

function walk :: "Element list \<Rightarrow> Element \<Rightarrow> Element list \<Rightarrow> Match list \<Rightarrow> Match list" where
  "walk elements rightElement rightElements matches =
     (if length (joinedText (rightElements @ [rightElement])) \<ge> 10 then matches
      else (case getRightElement elements rightElement of
              None \<Rightarrow> pushMatch matches rightElement (joinedText (rightElements @ [rightElement]))
            | Some next \<Rightarrow>
                if length (rightElements @ [rightElement]) < 10
                then walk elements next (rightElements @ [rightElement])
                       (pushMatch matches rightElement (joinedText (rightElements @ [rightElement])))
                else pushMatch matches rightElement (joinedText (rightElements @ [rightElement]))))"
  by pat_completeness auto
termination
  by (relation "measure (\<lambda>(elements, rightElement, rightElements, matches).
        10 - length rightElements)") auto

declare walk.simps [simp del]

text \<open>
  Choosing the best match: \<open>matches.reduce((previous, current) => ..., undefined)\<close> with the
  condition
  \<open>previous === undefined || current.threshold < previous.threshold ||
    (current.threshold === previous.threshold &&
     Math.abs(current.text.trim().length - "Lodgement".length) <=
     Math.abs(previous.text.trim().length - "Lodgement".length))\<close>.
  When the thresholds are equal the condition reads \<open>current.text\<close>, which is \<open>undefined\<close>
  for a match, and the call of \<open>trim\<close> on it throws a \<open>TypeError\<close>.
\<close>

fun reduceMatches :: "Match option \<Rightarrow> Match list \<Rightarrow> error + Match option" where
  "reduceMatches previous [] = Inr previous"
| "reduceMatches previous (current # rest) =
     (case previous of
        None \<Rightarrow> reduceMatches (Some current) rest
      | Some p \<Rightarrow>
          if threshold current < threshold p then reduceMatches (Some current) rest
          else if threshold current = threshold p then Inl TypeError
          else reduceMatches (Some p) rest)"

text \<open>
  The same reduction as the compiled \<open>scraper.js\<close> has it, with the condition
  \<open>previous === undefined || previous.threshold < current.threshold ||
    (previous.threshold === current.threshold &&
     Math.abs(previous.text.length - "Lodgement".length) <=
     Math.abs(current.text.length - "Lodgement".length))\<close>:
  here \<open>previous.text.length\<close> throws when the thresholds are equal.
\<close>

fun reduceMatches_js :: "Match option \<Rightarrow> Match list \<Rightarrow> error + Match option" where
  "reduceMatches_js previous [] = Inr previous"
| "reduceMatches_js previous (current # rest) =
     (case previous of
        None \<Rightarrow> reduceMatches_js (Some current) rest
      | Some p \<Rightarrow>
          if threshold p < threshold current then reduceMatches_js (Some current) rest
          else if threshold p = threshold current then Inl TypeError
          else reduceMatches_js (Some p) rest)"

text \<open>
  The loop over the elements that begin with ``l''. \<open>bestMatch.element\<close> of an undefined
  best match would throw as well.
\<close>

fun startElementsLoop :: "Element list \<Rightarrow> Element list \<Rightarrow> Element list \<Rightarrow> error + Element list" where
  "startElementsLoop elements [] startElements = Inr startElements"
| "startElementsLoop elements (e # rest) startElements =
     (if length (walk elements e [] []) > 0
      then (case reduceMatches None (walk elements e [] []) of
              Inl err \<Rightarrow> Inl err
            | Inr None \<Rightarrow> Inl TypeError
            | Inr (Some bestMatch) \<Rightarrow>
                startElementsLoop elements rest (startElements @ [element bestMatch]))
      else startElementsLoop elements rest startElements)"

text \<open>
  Finds the start element of each development application on the current PDF page, sorted
  by \<open>yComparer\<close>, which compares the \<open>y\<close> of two elements.
\<close>

definition findStartElements :: "Element list \<Rightarrow> error + Element list" where
  "findStartElements elements =
     (case startElementsLoop elements (filter startsWithL elements) [] of
        Inl err \<Rightarrow> Inl err
      | Inr startElements \<Rightarrow> Inr (sort_key y startElements))"

section \<open>Parsing a document\<close>

text \<open>
  The start element raised by half its height, and the elements between the top of a row
  and the top of the next row.
\<close>

definition raisedStartElement :: "Element \<Rightarrow> Element" where
  "raisedStartElement startElement = startElement \<lparr> y := y startElement - height startElement / 2 \<rparr>"

definition isInRow :: "rat \<Rightarrow> rat \<Rightarrow> Element \<Rightarrow> bool" where
  "isInRow rowTop nextRowTop e \<longleftrightarrow> y e \<ge> rowTop \<and> y e + height e < nextRowTop"

text \<open>
  The groups of elements, one for each start element: a pair of the start element and the
  elements of its row. The head of the remaining start elements is
  \<open>startElements[index + 1]\<close>.
\<close>

fun applicationElementGroups ::
  "Element list \<Rightarrow> Element list \<Rightarrow> (Element \<times> Element list) list" where
  "applicationElementGroups elements [] = []"
| "applicationElementGroups elements (startElement # rest) =
     (startElement,
      filter (isInRow (getRowTop elements (raisedStartElement startElement))
                (case rest of [] \<Rightarrow> MAX_VALUE | next # _ \<Rightarrow> getRowTop elements next))
        elements)
     # applicationElementGroups elements rest"

text \<open>
  The condition of the \<open>while\<close> loop that makes an application number unique: another
  application has the same number and a different address, description or received date.
\<close>

definition collides :: "DevelopmentApplication \<Rightarrow> DevelopmentApplication \<Rightarrow> bool" where
  "collides developmentApplication other \<longleftrightarrow>
     applicationNumber other = applicationNumber developmentApplication \<and>
     (address other \<noteq> address developmentApplication \<or>
      description other \<noteq> description developmentApplication \<or>
      receivedDate other \<noteq> receivedDate developmentApplication)"

text \<open>\<open>`${applicationNumber} (${suffix})`\<close>\<close>

definition suffixed :: "string \<Rightarrow> nat \<Rightarrow> string" where
  "suffixed number suffix = number @ '' ('' @ showNat suffix @ '')''"

lemma digitsToNat_snoc: "digitsToNat (s @ [c]) = 10 * digitsToNat s + digitValue c"
  by (simp add: digitsToNat_def)

lemma digitValue_digit: "d < 10 \<Longrightarrow> digitValue (char_of (48 + d)) = d"
  by (simp add: digitValue_def)

lemma digitsToNat_showNat: "digitsToNat (showNat n) = n"
proof (induction n rule: showNat.induct)
  case (1 n)
  show ?case
  proof (cases "n < 10")
    case True
    then show ?thesis
      using digitsToNat_snoc [of "[]"] by (simp add: showNat.simps [of n] digitValue_digit digitsToNat_def)
  next
    case False
    then have "digitsToNat (showNat n) = 10 * (n div 10) + n mod 10"
      using "1.IH" by (simp add: showNat.simps [of n] digitsToNat_snoc digitValue_digit)
    then show ?thesis by simp
  qed
qed

lemma showNat_inject: "showNat a = showNat b \<Longrightarrow> a = b"
  by (metis digitsToNat_showNat)

lemma suffixed_inject: "suffixed number a = suffixed number b \<Longrightarrow> a = b"
  by (simp add: suffixed_def showNat_inject)

lemma length_filter_subpredicate:
  assumes "r \<in> set rs" and "Q r" and "\<not> P r" and "\<And>r. P r \<Longrightarrow> Q r"
  shows "length (filter P rs) < length (filter Q rs)"
proof -
  have "filter P rs = filter P (filter Q rs)"
    using assms(4) by (auto intro: filter_cong)
  moreover have "length (filter P (filter Q rs)) < length (filter Q rs)"
    using assms(1-3) by (intro length_filter_less [of r]) auto
  ultimately show ?thesis by simp
qed

lemma length_filter_mono:
  assumes "\<And>r. P r \<Longrightarrow> Q r"
  shows "length (filter P rs) \<le> length (filter Q rs)"
  using assms by (induction rs) auto

text \<open>The number of an application is the given number with some suffix from \<open>suffix\<close> on.\<close>

definition hasSuffixFrom :: "string \<Rightarrow> nat \<Rightarrow> DevelopmentApplication \<Rightarrow> bool" where
  "hasSuffixFrom number suffix r \<longleftrightarrow> (\<exists>k\<ge>suffix. applicationNumber r = suffixed number k)"

text \<open>
  The \<open>while\<close> loop that adds a unique suffix: as long as some earlier application collides
  with the current one, the number becomes the original number with the next suffix.
\<close>

function suffixLoop ::
  "DevelopmentApplication list \<Rightarrow> string \<Rightarrow> nat \<Rightarrow> DevelopmentApplication \<Rightarrow> DevelopmentApplication" where
  "suffixLoop developmentApplications number suffix developmentApplication =
     (if list_ex (collides developmentApplication) developmentApplications
      then suffixLoop developmentApplications number (suffix + 1)
             (developmentApplication \<lparr> applicationNumber := suffixed number (suffix + 1) \<rparr>)
      else developmentApplication)"
  by pat_completeness auto
termination
proof (relation "measure (\<lambda>(rs, number, suffix, d).
    2 * length (filter (hasSuffixFrom number suffix) rs) +
    (if applicationNumber d = suffixed number suffix then 0 else 1))", goal_cases)
  case 1
  show ?case by simp
next
  case (2 rs number suffix d)
  have sub: "\<And>r. hasSuffixFrom number (suffix + 1) r \<Longrightarrow> hasSuffixFrom number suffix r"
    unfolding hasSuffixFrom_def by (meson Suc_leD Suc_eq_plus1 add_leD1)
  have mono: "length (filter (hasSuffixFrom number (suffix + 1)) rs)
      \<le> length (filter (hasSuffixFrom number suffix) rs)"
    using sub by (rule length_filter_mono)
  have less: "length (filter (hasSuffixFrom number (suffix + 1)) rs)
      < length (filter (hasSuffixFrom number suffix) rs)"
    if eq: "applicationNumber d = suffixed number suffix"
  proof -
    from 2 obtain r where r: "r \<in> set rs" "collides d r"
      unfolding list_ex_iff by blast
    have rn: "applicationNumber r = suffixed number suffix"
      using r(2) eq unfolding collides_def by simp
    have here: "hasSuffixFrom number suffix r"
      unfolding hasSuffixFrom_def using rn by blast
    have away: "\<not> hasSuffixFrom number (suffix + 1) r"
    proof
      assume "hasSuffixFrom number (suffix + 1) r"
      then obtain k where k: "suffix + 1 \<le> k" "applicationNumber r = suffixed number k"
        unfolding hasSuffixFrom_def by blast
      from k(2) rn have "suffixed number k = suffixed number suffix" by simp
      then have "k = suffix" by (rule suffixed_inject)
      with k(1) show False by simp
    qed
    show ?thesis
      using r(1) here away sub by (rule length_filter_subpredicate)
  qed
  show ?case
  proof (cases "applicationNumber d = suffixed number suffix")
    case True
    from less [OF True] show ?thesis using True by simp
  next
    case False
    with mono show ?thesis by simp
  qed
qed

declare suffixLoop.simps [simp del]

text \<open>
  One round of the loop over the groups of a page: a parsed application gets its unique
  number and is pushed; the state is the log and the applications of the document so far.
\<close>

definition pushApplication ::
  "DevelopmentApplication list \<Rightarrow> DevelopmentApplication \<Rightarrow> DevelopmentApplication list" where
  "pushApplication developmentApplications developmentApplication =
     developmentApplications @
       [suffixLoop developmentApplications (applicationNumber developmentApplication) 0
          developmentApplication]"

fun parseGroups ::
  "(string \<times> string) list \<Rightarrow> string \<Rightarrow> Element \<Rightarrow> Element \<Rightarrow> Element \<Rightarrow> Element option \<Rightarrow>
   string \<Rightarrow> (Element \<times> Element list) list \<Rightarrow> diagnostic list \<times> DevelopmentApplication list \<Rightarrow>
   diagnostic list \<times> DevelopmentApplication list" where
  "parseGroups SuburbNames today applicantElement applicationElement proposalElement
     referralsElement url [] state = state"
| "parseGroups SuburbNames today applicantElement applicationElement proposalElement
     referralsElement url (applicationElementGroup # rest) state =
     (case parseApplicationElements SuburbNames today (snd applicationElementGroup) (fst applicationElementGroup) applicantElement
             applicationElement proposalElement referralsElement url of
        (messages, None) \<Rightarrow>
          parseGroups SuburbNames today applicantElement applicationElement proposalElement
            referralsElement url rest (fst state @ messages, snd state)
      | (messages, Some developmentApplication) \<Rightarrow>
          parseGroups SuburbNames today applicantElement applicationElement proposalElement
            referralsElement url rest
            (fst state @ messages, pushApplication (snd state) developmentApplication))"

text \<open>
  The page number test on the last element of the page:
  \<open>/[0-9]+/.test(text) && Number(text) < 1000\<close>.
\<close>

definition isPageNumber :: "Element \<Rightarrow> bool" where
  "isPageNumber e \<longleftrightarrow> list_ex isDigit (text e) \<and> lessThan1000 (Number (text e))"

definition hasTrimmedText :: "string \<Rightarrow> Element \<Rightarrow> bool" where
  "hasTrimmedText heading e \<longleftrightarrow> trim (text e) = heading"

text \<open>\<open>elementComparer\<close> orders the elements by Y co-ordinate and then by X co-ordinate.\<close>

definition readingOrder :: "Element \<Rightarrow> rat \<times> rat" where
  "readingOrder e = (y e, x e)"

text \<open>
  The part of the body of the loop over the pages that follows the removal of the page
  number: find the main column heading elements, applicationElementGroup the elements and parse each applicationElementGroup.
\<close>

definition parsePageElements ::
  "(string \<times> string) list \<Rightarrow> string \<Rightarrow> string \<Rightarrow> Element list \<Rightarrow>
   diagnostic list \<times> DevelopmentApplication list \<Rightarrow>
   diagnostic list \<times> (error + DevelopmentApplication list)" where
  "parsePageElements SuburbNames today url elements state =
     (case find (hasTrimmedText ''Applicant'') elements of
        None \<Rightarrow>
          (fst state @ [HeadingNotFound ''Applicant'' (elementSummary elements)], Inr (snd state))
      | Some applicantElement \<Rightarrow>
     (case find (hasTrimmedText ''Application'') elements of
        None \<Rightarrow>
          (fst state @ [HeadingNotFound ''Application Date'' (elementSummary elements)],
           Inr (snd state))
      | Some applicationElement \<Rightarrow>
     (case find (hasTrimmedText ''Proposal'') elements of
        None \<Rightarrow>
          (fst state @ [HeadingNotFound ''Proposal'' (elementSummary elements)], Inr (snd state))
      | Some proposalElement \<Rightarrow>
     (case findStartElements elements of
        Inl err \<Rightarrow> (fst state, Inl err)
      | Inr startElements \<Rightarrow>
          (case parseGroups SuburbNames today applicantElement applicationElement proposalElement
                  (find (hasTrimmedText ''Referrals/'') elements) url
                  (applicationElementGroups elements startElements) state of
             (logged, developmentApplications) \<Rightarrow> (logged, Inr developmentApplications))))))"

text \<open>
  The body of the loop over the pages, for the elements built from the text items of the
  page with index \<open>pageIndex\<close>. On a page without elements \<open>elements[elements.length - 1]\<close>
  is \<open>undefined\<close> and reading its \<open>text\<close> throws.
\<close>

definition parsePage ::
  "(string \<times> string) list \<Rightarrow> string \<Rightarrow> string \<Rightarrow> nat \<Rightarrow> nat \<Rightarrow> Element list \<Rightarrow>
   diagnostic list \<times> DevelopmentApplication list \<Rightarrow>
   diagnostic list \<times> (error + DevelopmentApplication list)" where
  "parsePage SuburbNames today url pageIndex numPages items state =
     (let elements = sort_key readingOrder items;
          logged = fst state @ [ReadingPage (pageIndex + 1) numPages]
      in if elements = [] then (logged, Inl TypeError)
         else parsePageElements SuburbNames today url
                (if isPageNumber (last elements) then butlast elements else elements)
                (logged, snd state))"

fun parsePages ::
  "(string \<times> string) list \<Rightarrow> string \<Rightarrow> string \<Rightarrow> nat \<Rightarrow> nat \<Rightarrow> Element list list \<Rightarrow>
   diagnostic list \<times> DevelopmentApplication list \<Rightarrow>
   diagnostic list \<times> (error + DevelopmentApplication list)" where
  "parsePages SuburbNames today url pageIndex numPages [] state = (fst state, Inr (snd state))"
| "parsePages SuburbNames today url pageIndex numPages (items # rest) state =
     (case parsePage SuburbNames today url pageIndex numPages items state of
        (logged, Inl err) \<Rightarrow> (logged, Inl err)
      | (logged, Inr developmentApplications) \<Rightarrow>
          parsePages SuburbNames today url (pageIndex + 1) numPages rest
            (logged, developmentApplications))"

text \<open>
  Parses a PDF document, given as the elements of each of its pages. The result is the log
  and either the exception that ended the parse or the development applications.
\<close>

definition parsePdf ::
  "(string \<times> string) list \<Rightarrow> string \<Rightarrow> string \<Rightarrow> Element list list \<Rightarrow>
   diagnostic list \<times> (error + DevelopmentApplication list)" where
  "parsePdf SuburbNames today url pages =
     parsePages SuburbNames today url 0 (length pages) pages ([], [])"

section \<open>An example page\<close>

text \<open>
  A page of the register as the scraper reads it: the three column headings, and one
  application with its number, the ``Lodgement'' label, the application date, the address
  and, a line further down, the date on which the application was received.
\<close>

definition exSuburbNames :: "(string \<times> string) list" where
  "exSuburbNames = [(''KAPUNDA'', ''KAPUNDA SA 5373'')]"

definition exApplication :: Element where
  "exApplication = \<lparr> x = 120, y = 50, width = 50, height = 10, text = ''Application'' \<rparr>"

definition exApplicant :: Element where
  "exApplicant = \<lparr> x = 200, y = 50, width = 40, height = 10, text = ''Applicant'' \<rparr>"

definition exProposal :: Element where
  "exProposal = \<lparr> x = 400, y = 50, width = 40, height = 10, text = ''Proposal'' \<rparr>"

definition exNumber :: Element where
  "exNumber = \<lparr> x = 10, y = 100, width = 50, height = 10, text = ''313/12/2018'' \<rparr>"

definition exLodgement :: Element where
  "exLodgement = \<lparr> x = 70, y = 100, width = 45, height = 10, text = ''Lodgement'' \<rparr>"

definition exApplicationDate :: Element where
  "exApplicationDate = \<lparr> x = 120, y = 100, width = 40, height = 10, text = ''1/02/2018'' \<rparr>"

definition exAddress :: Element where
  "exAddress = \<lparr> x = 220, y = 100, width = 100, height = 10, text = ''1 Smith ST KAPUNDA'' \<rparr>"

definition exReceivedDate :: Element where
  "exReceivedDate = \<lparr> x = 120, y = 120, width = 40, height = 10, text = ''5/02/2018'' \<rparr>"

definition exBand :: "Element list" where
  "exBand = [exNumber, exLodgement, exApplicationDate, exAddress, exReceivedDate]"

definition exPage :: "Element list" where
  "exPage = [exApplication, exApplicant, exProposal] @ exBand"

section \<open>The received date\<close>

text \<open>
  Whatever the row holds, the received date of a parsed application is read from the text of
  the application date element, the first element of the row that passes the test of the
  date column.
\<close>

lemma parseApplicationElements_receivedDate:
  assumes "parseApplicationElements SuburbNames today elements startElement applicantElement
             applicationElement proposalElement referralsElement url = (messages, Some d)"
  shows "\<exists>applicationDateElement.
           find (isDateElement applicationElement) elements = Some applicationDateElement \<and>
           receivedDate d =
             (case moment (trim (text applicationDateElement)) of None \<Rightarrow> [] | Some m \<Rightarrow> format m)"
  using assms
  by (auto simp: parseApplicationElements_def Let_def split: option.splits)

text \<open>
  Claim C1. When a received-date fragment is found in a row (a fragment that passes the test
  of the date column, lies strictly below the application-date fragment and holds a valid
  date), the received date of the record should be the date of that fragment. On the example
  page the fragment ``5/02/2018'' is found below the application date ``1/02/2018'', and the
  record carries the application date \<open>2018-02-01\<close>, not \<open>2018-02-05\<close>.
\<close>

theorem received_date_is_the_application_date:
  "find (isDateElement exApplication) exBand = Some exApplicationDate \<and>
   find (isReceivedDateElement exApplication exApplicationDate) exBand = Some exReceivedDate \<and>
   map_option format (moment (trim (text exReceivedDate))) = Some ''2018-02-05'' \<and>
   map_option receivedDate
     (snd (parseApplicationElements exSuburbNames ''2018-10-20'' exBand exLodgement exApplicant
             exApplication exProposal None ''http://example.com/register.pdf''))
     = Some ''2018-02-01'' \<and>
   map_sum id (map receivedDate)
     (snd (parsePdf exSuburbNames ''2018-10-20'' ''http://example.com/register.pdf'' [exPage]))
     = Inr [''2018-02-01'']"
  by code_simp

section \<open>The bracketed number at the end of an address\<close>

text \<open>
  The compiled \<open>scraper.js\<close> holds an earlier \<open>formatAddress\<close> that begins, after the trim
  and the test for the empty string, with
  \<open>address = address.replace(/ \([0-9]+\)$/, "").replace(/ \([0-9]*$/, "")\<close>
  under the comment ``Remove the bracketted number that often appears at the end of a
  property address. For example, "7 McAdam RD PORT AUGUSTA (3743)" is changed to
  "7 McAdam RD PORT AUGUSTA".'' It logs nothing. The two replacements and that function:
\<close>

definition removeBracketedNumber :: "string \<Rightarrow> string" where
  "removeBracketedNumber s =
     (let r = rev s;
          digits = takeWhile isDigit (drop 1 r);
          before = drop (Suc (length digits)) r
      in if take 1 r = '')'' \<and> digits \<noteq> [] \<and> take 2 before = ''( ''
         then rev (drop 2 before) else s)"

definition removeOpenBracketedNumber :: "string \<Rightarrow> string" where
  "removeOpenBracketedNumber s =
     (let r = rev s;
          before = dropWhile isDigit r
      in if take 2 before = ''( '' then rev (drop 2 before) else s)"

definition formatAddress_removingNumber :: "(string \<times> string) list \<Rightarrow> string \<Rightarrow> string" where
  "formatAddress_removingNumber SuburbNames address0 =
     (if trim address0 = [] then []
      else (let address = removeOpenBracketedNumber (removeBracketedNumber (trim address0))
            in case suburbLoop SuburbNames (split address) 1 of
                 None \<Rightarrow> address
               | Some (suburbName, tokens) \<Rightarrow>
                   (let streetName = trim (join '' '' tokens)
                    in trim (streetName @ (if streetName = [] then [] else '', '') @ suburbName))))"

lemma formatAddress_removingNumber_example:
  "formatAddress_removingNumber [(''PORT AUGUSTA'', ''PORT AUGUSTA, SA 5700'')]
     ''7 McAdam RD PORT AUGUSTA (3743)'' = ''7 McAdam RD, PORT AUGUSTA, SA 5700''"
  by code_simp


section \<open>The best match for ``Lodgement''\<close>

text \<open>
  A row whose ``Lodgement'' label is followed by an element that holds a single space, as a
  PDF often has between two words.
\<close>

definition exLabel :: Element where
  "exLabel = \<lparr> x = 10, y = 100, width = 45, height = 10, text = ''Lodgement'' \<rparr>"

definition exSpace :: Element where
  "exSpace = \<lparr> x = 56, y = 100, width = 3, height = 10, text = '' '' \<rparr>"

text \<open>A label split over three elements: ``Lodge'', ``men'' and ``t''.\<close>

definition exLodge :: Element where
  "exLodge = \<lparr> x = 10, y = 300, width = 25, height = 10, text = ''Lodge'' \<rparr>"

definition exMen :: Element where
  "exMen = \<lparr> x = 36, y = 300, width = 20, height = 10, text = ''men'' \<rparr>"

definition exT :: Element where
  "exT = \<lparr> x = 57, y = 300, width = 5, height = 10, text = ''t'' \<rparr>"

text \<open>
  With thresholds that differ, the reduction of the source keeps the match with the lowest
  threshold, and the reduction of the compiled \<open>scraper.js\<close> keeps the one with the highest.
\<close>

lemma reduceMatches_split_label:
  "walk [exLodge, exMen, exT] exLodge [] []
     = [\<lparr> element = exMen, threshold = 1 \<rparr>, \<lparr> element = exT, threshold = 0 \<rparr>] \<and>
   reduceMatches None (walk [exLodge, exMen, exT] exLodge [] [])
     = Inr (Some \<lparr> element = exT, threshold = 0 \<rparr>) \<and>
   reduceMatches_js None (walk [exLodge, exMen, exT] exLodge [] [])
     = Inr (Some \<lparr> element = exMen, threshold = 1 \<rparr>)"
  by code_simp

text \<open>
  Claim C4. For every walk with at least one match, the boundary should be the match with
  the lowest threshold, ties being broken by the length of the text closest to that of
  ``Lodgement''. A match carries no text, so on a tie the reduction throws instead: the walk
  from the label over the space has two matches with threshold 0, no boundary is recorded,
  and the parse of a document with such a page ends with the exception.
\<close>

theorem tie_between_matches_throws:
  "walk [exLabel, exSpace] exLabel [] []
     = [\<lparr> element = exLabel, threshold = 0 \<rparr>, \<lparr> element = exSpace, threshold = 0 \<rparr>] \<and>
   reduceMatches None (walk [exLabel, exSpace] exLabel [] []) = Inl TypeError \<and>
   findStartElements [exLabel, exSpace] = Inl TypeError \<and>
   snd (parsePdf exSuburbNames ''2018-10-20'' ''http://example.com/register.pdf''
          [[exApplication, exApplicant, exProposal, exLabel, exSpace]]) = Inl TypeError"
  by code_simp

section \<open>Pages without a column heading\<close>

text \<open>The elements of a page after the sort and the removal of the page number.\<close>

definition pageElements :: "Element list \<Rightarrow> Element list" where
  "pageElements items =
     (if isPageNumber (last (sort_key readingOrder items))
      then butlast (sort_key readingOrder items) else sort_key readingOrder items)"

lemma parsePage_nonempty:
  assumes "items \<noteq> []"
  shows "parsePage SuburbNames today url pageIndex numPages items state =
           parsePageElements SuburbNames today url (pageElements items)
             (fst state @ [ReadingPage (pageIndex + 1) numPages], snd state)"
proof -
  have "sort_key readingOrder items \<noteq> []"
    using assms by (metis length_0_conv length_sort)
  then show ?thesis
    by (simp add: parsePage_def pageElements_def Let_def)
qed

lemma parsePageElements_missing_heading:
  assumes "find (hasTrimmedText ''Applicant'') elements = None \<or>
           find (hasTrimmedText ''Application'') elements = None \<or>
           find (hasTrimmedText ''Proposal'') elements = None"
  shows "\<exists>heading. parsePageElements SuburbNames today url elements state =
           (fst state @ [HeadingNotFound heading (elementSummary elements)], Inr (snd state))"
  using assms by (auto simp: parsePageElements_def split: option.splits)

text \<open>
  A page that has elements but lacks one of the three headings adds no application and one
  message with the elements of the page, and the pages after it are parsed.
\<close>

lemma parsePages_missing_heading:
  assumes "items \<noteq> []"
    and "find (hasTrimmedText ''Applicant'') (pageElements items) = None \<or>
         find (hasTrimmedText ''Application'') (pageElements items) = None \<or>
         find (hasTrimmedText ''Proposal'') (pageElements items) = None"
  shows "\<exists>heading. parsePages SuburbNames today url pageIndex numPages (items # rest) state =
           parsePages SuburbNames today url (pageIndex + 1) numPages rest
             (fst state @ [ReadingPage (pageIndex + 1) numPages,
                           HeadingNotFound heading (elementSummary (pageElements items))],
              snd state)"
proof -
  from parsePageElements_missing_heading [OF assms(2), where SuburbNames = SuburbNames
      and today = today and url = url
      and state = "(fst state @ [ReadingPage (pageIndex + 1) numPages], snd state)"]
  obtain heading where
    "parsePageElements SuburbNames today url (pageElements items)
       (fst state @ [ReadingPage (pageIndex + 1) numPages], snd state) =
     (fst state @ [ReadingPage (pageIndex + 1) numPages,
                   HeadingNotFound heading (elementSummary (pageElements items))],
      Inr (snd state))"
    by auto
  then show ?thesis
    using parsePage_nonempty [OF assms(1)] by auto
qed

text \<open>
  Claim C3. A page that lacks a required heading should give no record, a diagnostic and no
  exception, and the other pages should still be processed. A page without any text element
  lacks all three headings; the test for the page number reads the text of its last element
  before the headings are looked for and throws. In a document whose first page is empty and
  whose second page is the example page, the parse ends with the exception on the first
  page; the second page alone gives one application.
\<close>

theorem empty_page_throws:
  "parsePdf exSuburbNames ''2018-10-20'' ''http://example.com/register.pdf'' [[], exPage]
     = ([ReadingPage 1 2], Inl TypeError) \<and>
   map_sum id length
     (snd (parsePdf exSuburbNames ''2018-10-20'' ''http://example.com/register.pdf'' [exPage]))
     = Inr 1"
  by code_simp

section \<open>Row bands\<close>














section \<open>The application number\<close>








section \<open>Unique application numbers\<close>

lemma suffixLoop_no_collision:
  "\<not> list_ex (collides d) rs \<Longrightarrow> suffixLoop rs number s d = d"
  by (simp add: suffixLoop.simps [of rs number s d])

text \<open>
  When the application collides, the loop ends with the first suffix after \<open>s\<close> for which
  no application collides any more.
\<close>

lemma suffixLoop_collision:
  "list_ex (collides d) rs \<Longrightarrow>
   \<exists>n>s. suffixLoop rs number s d = d \<lparr> applicationNumber := suffixed number n \<rparr> \<and>
     \<not> list_ex (collides (d \<lparr> applicationNumber := suffixed number n \<rparr>)) rs \<and>
     (\<forall>k. s < k \<and> k < n \<longrightarrow>
        list_ex (collides (d \<lparr> applicationNumber := suffixed number k \<rparr>)) rs)"
proof (induction rs number s d rule: suffixLoop.induct)
  case (1 rs number s d)
  let ?next = "d \<lparr> applicationNumber := suffixed number (s + 1) \<rparr>"
  have step: "suffixLoop rs number s d = suffixLoop rs number (s + 1) ?next"
    using "1.prems" by (simp add: suffixLoop.simps [of rs number s d])
  show ?case
  proof (cases "list_ex (collides ?next) rs")
    case False
    then have "suffixLoop rs number (s + 1) ?next = ?next"
      by (rule suffixLoop_no_collision)
    with step False show ?thesis
      by (intro exI [of _ "s + 1"]) auto
  next
    case True
    from "1.IH" [OF "1.prems" True] obtain n where n: "s + 1 < n"
      and eq: "suffixLoop rs number (s + 1) ?next = ?next \<lparr> applicationNumber := suffixed number n \<rparr>"
      and free: "\<not> list_ex (collides (?next \<lparr> applicationNumber := suffixed number n \<rparr>)) rs"
      and taken: "\<forall>k. s + 1 < k \<and> k < n \<longrightarrow>
        list_ex (collides (?next \<lparr> applicationNumber := suffixed number k \<rparr>)) rs"
      by blast
    have taken': "list_ex (collides (d \<lparr> applicationNumber := suffixed number k \<rparr>)) rs"
      if "s < k" "k < n" for k
    proof (cases "k = s + 1")
      case True
      with \<open>list_ex (collides ?next) rs\<close> show ?thesis by simp
    next
      case False
      with that have "s + 1 < k \<and> k < n" by simp
      with taken show ?thesis by simp
    qed
    show ?thesis
    proof (intro exI [of _ n] conjI allI impI)
      show "s < n" using n by simp
      show "suffixLoop rs number s d = d \<lparr> applicationNumber := suffixed number n \<rparr>"
        using step eq by simp
      show "\<not> list_ex (collides (d \<lparr> applicationNumber := suffixed number n \<rparr>)) rs"
        using free by simp
      show "list_ex (collides (d \<lparr> applicationNumber := suffixed number k \<rparr>)) rs"
        if "s < k \<and> k < n" for k
        using that taken' by blast
    qed
  qed
qed

text \<open>
  Applications of a document are consistent when no two of them collide: those with the same
  number have the same address, description and received date.
\<close>

definition consistent :: "DevelopmentApplication list \<Rightarrow> bool" where
  "consistent rs \<longleftrightarrow> (\<forall>a\<in>set rs. \<forall>b\<in>set rs. \<not> collides a b)"

lemma collides_commute: "collides a b \<longleftrightarrow> collides b a"
  by (auto simp: collides_def)

lemma suffixLoop_free: "\<not> list_ex (collides (suffixLoop rs number s d)) rs"
proof (cases "list_ex (collides d) rs")
  case True
  from suffixLoop_collision [OF True, of s number] show ?thesis by auto
next
  case False
  then show ?thesis by (simp add: suffixLoop_no_collision)
qed

lemma pushApplication_consistent:
  assumes "consistent rs"
  shows "consistent (pushApplication rs d)"
proof -
  let ?r = "suffixLoop rs (applicationNumber d) 0 d"
  have free: "\<forall>b\<in>set rs. \<not> collides ?r b"
    using suffixLoop_free [of rs "applicationNumber d" 0 d] by (simp add: list_ex_iff)
  then have free': "\<forall>b\<in>set rs. \<not> collides b ?r"
    using collides_commute by blast
  have self: "\<not> collides ?r ?r"
    by (simp add: collides_def)
  show ?thesis
    using assms free free' self by (auto simp: consistent_def pushApplication_def)
qed

lemma parseGroups_consistent:
  "consistent (snd state) \<Longrightarrow>
   consistent (snd (parseGroups SuburbNames today applicantElement applicationElement
     proposalElement referralsElement url groups state))"
proof (induction groups arbitrary: state)
  case Nil
  then show ?case by simp
next
  case (Cons g groups)
  show ?case
  proof (cases "parseApplicationElements SuburbNames today (snd g) (fst g) applicantElement
             applicationElement proposalElement referralsElement url")
    case (Pair messages result)
    show ?thesis
    proof (cases result)
      case None
      with Pair Cons.prems show ?thesis
        using Cons.IH [of "(fst state @ messages, snd state)"] by simp
    next
      case (Some d)
      with Pair Cons.prems show ?thesis
        using Cons.IH [of "(fst state @ messages, pushApplication (snd state) d)"]
        by (simp add: pushApplication_consistent)
    qed
  qed
qed

text \<open>The applications of a parsed document are consistent.\<close>

lemma parsePageElements_consistent:
  assumes "consistent (snd state)"
    and "parsePageElements SuburbNames today url elements state = (logged, Inr rs)"
  shows "consistent rs"
proof -
  have groups: "consistent (snd (parseGroups SuburbNames today a b c r url gs state))"
    for a b c r gs
    using assms(1) by (rule parseGroups_consistent)
  show ?thesis
    using assms groups
    by (auto simp: parsePageElements_def split: option.splits sum.splits prod.splits)
      (metis snd_conv)
qed

lemma parsePage_consistent:
  assumes "consistent (snd state)"
    and "parsePage SuburbNames today url pageIndex numPages items state = (logged, Inr rs)"
  shows "consistent rs"
proof (cases "items = []")
  case True
  with assms(2) show ?thesis
    by (simp add: parsePage_def)
next
  case False
  from assms(2) parsePage_nonempty [OF False]
  have "parsePageElements SuburbNames today url (pageElements items)
      (fst state @ [ReadingPage (pageIndex + 1) numPages], snd state) = (logged, Inr rs)"
    by simp
  with assms(1) show ?thesis
    using parsePageElements_consistent
      [of "(fst state @ [ReadingPage (pageIndex + 1) numPages], snd state)"]
    by simp
qed

lemma parsePages_consistent:
  "consistent (snd state) \<Longrightarrow>
   parsePages SuburbNames today url pageIndex numPages pages state = (logged, Inr rs) \<Longrightarrow>
   consistent rs"
proof (induction pages arbitrary: state pageIndex)
  case Nil
  then show ?case by simp
next
  case (Cons items pages)
  obtain l result where page:
    "parsePage SuburbNames today url pageIndex numPages items state = (l, result)"
    by (cases "parsePage SuburbNames today url pageIndex numPages items state")
  show ?case
  proof (cases result)
    case (Inl err)
    with page Cons.prems(2) show ?thesis by simp
  next
    case (Inr rs')
    with page Cons.prems(1) have "consistent rs'"
      using parsePage_consistent by blast
    moreover from page Inr Cons.prems(2)
    have "parsePages SuburbNames today url (pageIndex + 1) numPages pages (l, rs') = (logged, Inr rs)"
      by simp
    ultimately show ?thesis
      using Cons.IH [of "(l, rs')" "pageIndex + 1"] by simp
  qed
qed

lemma parsePdf_consistent:
  "parsePdf SuburbNames today url pages = (logged, Inr rs) \<Longrightarrow> consistent rs"
  using parsePages_consistent [of "([], [])" SuburbNames today url 0 "length pages" pages logged rs]
  by (simp add: parsePdf_def consistent_def)







section \<open>The description\<close>

lemma suffixLoop_description: "description (suffixLoop rs number s d) = description d"
proof (cases "list_ex (collides d) rs")
  case True
  from suffixLoop_collision [OF True, of s number] show ?thesis by auto
next
  case False
  then show ?thesis by (simp add: suffixLoop_no_collision)
qed

lemma parseApplicationElements_description:
  assumes "parseApplicationElements SuburbNames today elements startElement applicantElement
             applicationElement proposalElement referralsElement url = (messages, Some d)"
  shows "description d =
           (if trim (getDescription elements proposalElement referralsElement) = []
            then ''No Description Provided''
            else getDescription elements proposalElement referralsElement)"
  using assms by (auto simp: parseApplicationElements_def Let_def split: option.splits)

lemma trim_Nil: "trim [] = []"
  by (simp add: trim_def)

lemma parseApplicationElements_without_referrals:
  "(snd (parseApplicationElements SuburbNames today elements startElement applicantElement
           applicationElement proposalElement None url) = None)
   = (snd (parseApplicationElements SuburbNames today elements startElement applicantElement
           applicationElement proposalElement referralsElement url) = None)"
  by (auto simp: parseApplicationElements_def Let_def split: option.splits)

text \<open>
  Without the ``Referrals/'' heading, every application that the loop over the groups pushes
  has the placeholder as its description.
\<close>

lemma parseGroups_without_referrals:
  "\<exists>new. snd (parseGroups SuburbNames today applicantElement applicationElement
                 proposalElement None url groups state) = snd state @ new \<and>
          list_all (\<lambda>d. description d = ''No Description Provided'') new"
proof (induction groups arbitrary: state)
  case Nil
  show ?case by simp
next
  case (Cons g groups)
  show ?case
  proof (cases "parseApplicationElements SuburbNames today (snd g) (fst g) applicantElement
             applicationElement proposalElement None url")
    case (Pair messages result)
    show ?thesis
    proof (cases result)
      case None
      with Pair show ?thesis
        using Cons.IH [of "(fst state @ messages, snd state)"] by simp
    next
      case (Some d)
      from Pair Some have "description d = ''No Description Provided''"
        using parseApplicationElements_description
          [of SuburbNames today "snd g" "fst g" applicantElement applicationElement
              proposalElement None url messages d]
        by (simp add: getDescription_def trim_Nil)
      then have d: "description (suffixLoop (snd state) (applicationNumber d) 0 d)
          = ''No Description Provided''"
        by (simp add: suffixLoop_description)
      from Cons.IH [of "(fst state @ messages, pushApplication (snd state) d)"]
      obtain new where new: "snd (parseGroups SuburbNames today applicantElement applicationElement
            proposalElement None url groups (fst state @ messages, pushApplication (snd state) d))
          = pushApplication (snd state) d @ new"
        "list_all (\<lambda>d. description d = ''No Description Provided'') new"
        by auto
      show ?thesis
      proof (intro exI [of _ "suffixLoop (snd state) (applicationNumber d) 0 d # new"] conjI)
        show "snd (parseGroups SuburbNames today applicantElement applicationElement
                 proposalElement None url (g # groups) state)
              = snd state @ suffixLoop (snd state) (applicationNumber d) 0 d # new"
          using Pair Some new(1) by (simp add: pushApplication_def)
        show "list_all (\<lambda>d. description d = ''No Description Provided'')
                (suffixLoop (snd state) (applicationNumber d) 0 d # new)"
          using d new(2) by simp
      qed
    qed
  qed
qed

text \<open>
  Claim C8. Where the ``Referrals/'' heading is absent, a row is parsed as it would be with
  the heading, and its application has the description ``No Description Provided''; the page
  is not rejected: with the three other headings found its groups are parsed, and all the
  applications pushed have that description. With or without the heading, the description of
  a parsed application is never empty, and it is the placeholder when the text taken from the
  row is empty.
\<close>

theorem description_placeholder:
  "(\<forall>messages d.
      parseApplicationElements SuburbNames today elements startElement applicantElement
        applicationElement proposalElement None url = (messages, Some d)
      \<longrightarrow> description d = ''No Description Provided'') \<and>
   ((snd (parseApplicationElements SuburbNames today elements startElement applicantElement
            applicationElement proposalElement None url) = None)
    = (snd (parseApplicationElements SuburbNames today elements startElement applicantElement
            applicationElement proposalElement referralsElement url) = None)) \<and>
   (\<forall>messages d.
      parseApplicationElements SuburbNames today elements startElement applicantElement
        applicationElement proposalElement referralsElement url = (messages, Some d)
      \<longrightarrow> description d \<noteq> [] \<and>
          (getDescription elements proposalElement referralsElement = []
           \<longrightarrow> description d = ''No Description Provided'')) \<and>
   (find (hasTrimmedText ''Applicant'') page = Some applicantElement \<and>
    find (hasTrimmedText ''Application'') page = Some applicationElement \<and>
    find (hasTrimmedText ''Proposal'') page = Some proposalElement \<and>
    find (hasTrimmedText ''Referrals/'') page = None \<and>
    findStartElements page = Inr startElements
    \<longrightarrow> (\<exists>logged new.
          parsePageElements SuburbNames today url page state = (logged, Inr (snd state @ new)) \<and>
          parseGroups SuburbNames today applicantElement applicationElement proposalElement
            None url (applicationElementGroups page startElements) state
            = (logged, snd state @ new) \<and>
          list_all (\<lambda>d. description d = ''No Description Provided'') new))"
proof (intro conjI allI impI)
  fix messages d
  assume "parseApplicationElements SuburbNames today elements startElement applicantElement
        applicationElement proposalElement None url = (messages, Some d)"
  from parseApplicationElements_description [OF this]
  show "description d = ''No Description Provided''"
    by (simp add: getDescription_def trim_Nil)
next
  show "(snd (parseApplicationElements SuburbNames today elements startElement applicantElement
            applicationElement proposalElement None url) = None)
    = (snd (parseApplicationElements SuburbNames today elements startElement applicantElement
            applicationElement proposalElement referralsElement url) = None)"
    by (rule parseApplicationElements_without_referrals)
next
  fix messages d
  assume p: "parseApplicationElements SuburbNames today elements startElement applicantElement
        applicationElement proposalElement referralsElement url = (messages, Some d)"
  from parseApplicationElements_description [OF p]
  show "description d \<noteq> []"
    by (auto simp: trim_Nil split: if_splits)
  assume "getDescription elements proposalElement referralsElement = []"
  with parseApplicationElements_description [OF p]
  show "description d = ''No Description Provided''"
    by (simp add: trim_Nil)
next
  assume h: "find (hasTrimmedText ''Applicant'') page = Some applicantElement \<and>
    find (hasTrimmedText ''Application'') page = Some applicationElement \<and>
    find (hasTrimmedText ''Proposal'') page = Some proposalElement \<and>
    find (hasTrimmedText ''Referrals/'') page = None \<and>
    findStartElements page = Inr startElements"
  from parseGroups_without_referrals
    [of SuburbNames today applicantElement applicationElement proposalElement url
        "applicationElementGroups page startElements" state]
  obtain new where new: "snd (parseGroups SuburbNames today applicantElement applicationElement
        proposalElement None url (applicationElementGroups page startElements) state)
      = snd state @ new"
    "list_all (\<lambda>d. description d = ''No Description Provided'') new"
    by blast
  obtain logged where logged: "parseGroups SuburbNames today applicantElement applicationElement
        proposalElement None url (applicationElementGroups page startElements) state
      = (logged, snd state @ new)"
    using new(1) by (metis prod.collapse)
  have "parsePageElements SuburbNames today url page state = (logged, Inr (snd state @ new))"
    using h logged by (simp add: parsePageElements_def)
  with logged new(2)
  show "\<exists>logged new.
          parsePageElements SuburbNames today url page state = (logged, Inr (snd state @ new)) \<and>
          parseGroups SuburbNames today applicantElement applicationElement proposalElement
            None url (applicationElementGroups page startElements) state
            = (logged, snd state @ new) \<and>
          list_all (\<lambda>d. description d = ''No Description Provided'') new"
    by blast
qed

text \<open>
  The example page has no ``Referrals/'' heading. With such a heading and a text in the
  column of the proposal, the application of the example row has that text as its
  description.
\<close>

definition exReferrals :: Element where
  "exReferrals = \<lparr> x = 500, y = 50, width = 40, height = 10, text = ''Referrals/'' \<rparr>"

definition exDescription :: Element where
  "exDescription = \<lparr> x = 400, y = 100, width = 60, height = 10, text = ''Verandah'' \<rparr>"

theorem description_placeholder_witness:
  "find (hasTrimmedText ''Applicant'') exPage = Some exApplicant \<and>
   find (hasTrimmedText ''Application'') exPage = Some exApplication \<and>
   find (hasTrimmedText ''Proposal'') exPage = Some exProposal \<and>
   find (hasTrimmedText ''Referrals/'') exPage = None \<and>
   findStartElements exPage = Inr [exLodgement] \<and>
   map description
     (snd (parseGroups exSuburbNames ''2018-10-20'' exApplicant exApplication exProposal None
             ''http://example.com/register.pdf''
             (applicationElementGroups exPage [exLodgement]) ([], [])))
     = [''No Description Provided''] \<and>
   map_option description
     (snd (parseApplicationElements exSuburbNames ''2018-10-20'' (exBand @ [exDescription])
             exLodgement exApplicant exApplication exProposal None
             ''http://example.com/register.pdf''))
     = Some ''No Description Provided'' \<and>
   map_option description
     (snd (parseApplicationElements exSuburbNames ''2018-10-20'' (exBand @ [exDescription])
             exLodgement exApplicant exApplication exProposal (Some exReferrals)
             ''http://example.com/register.pdf''))
     = Some ''Verandah'' \<and>
   getDescription exBand exProposal (Some exReferrals) = [] \<and>
   map_option description
     (snd (parseApplicationElements exSuburbNames ''2018-10-20'' exBand
             exLodgement exApplicant exApplication exProposal (Some exReferrals)
             ''http://example.com/register.pdf''))
     = Some ''No Description Provided''"
proof -
  let ?url = "''http://example.com/register.pdf''"
  let ?today = "''2018-10-20''"
  have headings: "find (hasTrimmedText ''Applicant'') exPage = Some exApplicant \<and>
      find (hasTrimmedText ''Application'') exPage = Some exApplication \<and>
      find (hasTrimmedText ''Proposal'') exPage = Some exProposal \<and>
      find (hasTrimmedText ''Referrals/'') exPage = None \<and>
      findStartElements exPage = Inr [exLodgement]"
    by code_simp
  have len: "length (snd (parseGroups exSuburbNames ?today exApplicant exApplication exProposal
      None ?url (applicationElementGroups exPage [exLodgement]) ([], []))) = 1"
    by code_simp
  from description_placeholder [of exSuburbNames ?today exBand exLodgement exApplicant
      exApplication exProposal ?url None exPage "[exLodgement]" "([], [])"] headings
  obtain logged new where new:
    "parseGroups exSuburbNames ?today exApplicant exApplication exProposal None ?url
       (applicationElementGroups exPage [exLodgement]) ([], []) = (logged, [] @ new)"
    "list_all (\<lambda>d. description d = ''No Description Provided'') new"
    by auto
  from new(1) len have "length new = 1" by simp
  then obtain d where "new = [d]"
    by (cases new) auto
  with new have page: "map description
     (snd (parseGroups exSuburbNames ?today exApplicant exApplication exProposal None ?url
             (applicationElementGroups exPage [exLodgement]) ([], [])))
     = [''No Description Provided'']"
    by simp
  have some1: "snd (parseApplicationElements exSuburbNames ?today (exBand @ [exDescription])
      exLodgement exApplicant exApplication exProposal None ?url) \<noteq> None"
    by code_simp
  then obtain m1 d1 where p1: "parseApplicationElements exSuburbNames ?today
      (exBand @ [exDescription]) exLodgement exApplicant exApplication exProposal None ?url
      = (m1, Some d1)"
    by (metis option.exhaust prod.collapse)
  from description_placeholder [of exSuburbNames ?today "exBand @ [exDescription]" exLodgement
      exApplicant exApplication exProposal ?url None] p1
  have "description d1 = ''No Description Provided''"
    by blast
  with p1 have row1: "map_option description
     (snd (parseApplicationElements exSuburbNames ?today (exBand @ [exDescription])
             exLodgement exApplicant exApplication exProposal None ?url))
     = Some ''No Description Provided''"
    by simp
  have row2: "map_option description
     (snd (parseApplicationElements exSuburbNames ?today (exBand @ [exDescription])
             exLodgement exApplicant exApplication exProposal (Some exReferrals) ?url))
     = Some ''Verandah''"
    by code_simp
  have empty: "getDescription exBand exProposal (Some exReferrals) = []"
    by code_simp
  have some3: "snd (parseApplicationElements exSuburbNames ?today exBand
      exLodgement exApplicant exApplication exProposal (Some exReferrals) ?url) \<noteq> None"
    by code_simp
  then obtain m3 d3 where p3: "parseApplicationElements exSuburbNames ?today exBand
      exLodgement exApplicant exApplication exProposal (Some exReferrals) ?url = (m3, Some d3)"
    by (metis option.exhaust prod.collapse)
  from description_placeholder [of exSuburbNames ?today exBand exLodgement
      exApplicant exApplication exProposal ?url "Some exReferrals"] p3 empty
  have "description d3 = ''No Description Provided''"
    by blast
  with p3 have row3: "map_option description
     (snd (parseApplicationElements exSuburbNames ?today exBand
             exLodgement exApplicant exApplication exProposal (Some exReferrals) ?url))
     = Some ''No Description Provided''"
    by simp
  show ?thesis
    using headings page row1 row2 empty row3 by blast
qed

section \<open>The page number\<close>

lemma sorted_le_last: "sorted xs \<Longrightarrow> a \<in> set xs \<Longrightarrow> a \<le> last xs"
proof (induction xs)
  case Nil
  then show ?case by simp
next
  case (Cons b xs)
  show ?case
  proof (cases "xs = []")
    case True
    with Cons.prems show ?thesis by simp
  next
    case False
    then have "last xs \<in> set xs" by simp
    with Cons False show ?thesis by auto
  qed
qed

lemma sort_key_last_greatest:
  assumes "e \<in> set items"
  shows "readingOrder e \<le> readingOrder (last (sort_key readingOrder items))"
proof -
  let ?s = "sort_key readingOrder items"
  have ne: "?s \<noteq> []"
    using assms by (metis empty_iff list.set(1) set_sort)
  have "sorted (map readingOrder ?s)" by simp
  moreover have "readingOrder e \<in> set (map readingOrder ?s)"
    using assms by simp
  ultimately have "readingOrder e \<le> last (map readingOrder ?s)"
    by (rule sorted_le_last)
  then show ?thesis
    using ne by (simp add: last_map)
qed

text \<open>
  Claim C10. On a page with elements, the elements are put in reading order, by \<open>y\<close> and
  then by \<open>x\<close>, and the last of them is tested: when its text holds a digit and converts to a
  number less than 1000 it is removed, and nothing else is. The headings, the start elements,
  the bands and the fields are all computed by \<open>parsePageElements\<close> from the elements that
  remain.
\<close>

theorem page_number_removed:
  "items \<noteq> [] \<longrightarrow>
     sorted (map readingOrder (sort_key readingOrder items)) \<and>
     set (sort_key readingOrder items) = set items \<and>
     length (sort_key readingOrder items) = length items \<and>
     (\<forall>e\<in>set items. readingOrder e \<le> readingOrder (last (sort_key readingOrder items))) \<and>
     parsePage SuburbNames today url pageIndex numPages items state
       = parsePageElements SuburbNames today url (pageElements items)
           (fst state @ [ReadingPage (pageIndex + 1) numPages], snd state) \<and>
     (list_ex isDigit (text (last (sort_key readingOrder items))) \<and>
      lessThan1000 (Number (text (last (sort_key readingOrder items))))
      \<longrightarrow> pageElements items @ [last (sort_key readingOrder items)] = sort_key readingOrder items) \<and>
     (\<not> (list_ex isDigit (text (last (sort_key readingOrder items))) \<and>
         lessThan1000 (Number (text (last (sort_key readingOrder items)))))
      \<longrightarrow> pageElements items = sort_key readingOrder items)"
proof
  assume ne: "items \<noteq> []"
  then have sne: "sort_key readingOrder items \<noteq> []"
    by (metis length_0_conv length_sort)
  show "sorted (map readingOrder (sort_key readingOrder items)) \<and>
     set (sort_key readingOrder items) = set items \<and>
     length (sort_key readingOrder items) = length items \<and>
     (\<forall>e\<in>set items. readingOrder e \<le> readingOrder (last (sort_key readingOrder items))) \<and>
     parsePage SuburbNames today url pageIndex numPages items state
       = parsePageElements SuburbNames today url (pageElements items)
           (fst state @ [ReadingPage (pageIndex + 1) numPages], snd state) \<and>
     (list_ex isDigit (text (last (sort_key readingOrder items))) \<and>
      lessThan1000 (Number (text (last (sort_key readingOrder items))))
      \<longrightarrow> pageElements items @ [last (sort_key readingOrder items)] = sort_key readingOrder items) \<and>
     (\<not> (list_ex isDigit (text (last (sort_key readingOrder items))) \<and>
         lessThan1000 (Number (text (last (sort_key readingOrder items)))))
      \<longrightarrow> pageElements items = sort_key readingOrder items)"
  proof (intro conjI ballI impI)
    show "sorted (map readingOrder (sort_key readingOrder items))" by simp
    show "set (sort_key readingOrder items) = set items" by simp
    show "length (sort_key readingOrder items) = length items" by simp
    show "readingOrder e \<le> readingOrder (last (sort_key readingOrder items))"
      if "e \<in> set items" for e
      using that by (rule sort_key_last_greatest)
    show "parsePage SuburbNames today url pageIndex numPages items state
       = parsePageElements SuburbNames today url (pageElements items)
           (fst state @ [ReadingPage (pageIndex + 1) numPages], snd state)"
      using ne by (rule parsePage_nonempty)
    show "pageElements items @ [last (sort_key readingOrder items)] = sort_key readingOrder items"
      if "list_ex isDigit (text (last (sort_key readingOrder items))) \<and>
          lessThan1000 (Number (text (last (sort_key readingOrder items))))"
      using that sne by (simp add: pageElements_def isPageNumber_def)
    show "pageElements items = sort_key readingOrder items"
      if "\<not> (list_ex isDigit (text (last (sort_key readingOrder items))) \<and>
          lessThan1000 (Number (text (last (sort_key readingOrder items)))))"
      using that by (auto simp: pageElements_def isPageNumber_def)
  qed
qed

text \<open>The example page with the page number 7 at its foot, the elements in any order.\<close>

definition exPageNumber :: Element where
  "exPageNumber = \<lparr> x = 300, y = 800, width = 10, height = 10, text = ''7'' \<rparr>"

definition exItems :: "Element list" where
  "exItems = exPageNumber # rev exPage"

theorem page_number_removed_witness:
  "exItems \<noteq> [] \<and>
   last (sort_key readingOrder exItems) = exPageNumber \<and>
   list_ex isDigit (text exPageNumber) \<and> lessThan1000 (Number (text exPageNumber)) \<and>
   pageElements exItems @ [exPageNumber] = sort_key readingOrder exItems \<and>
   pageElements exItems = exPage \<and>
   parsePage exSuburbNames ''2018-10-20'' ''http://example.com/register.pdf'' 0 1 exItems ([], [])
     = parsePageElements exSuburbNames ''2018-10-20'' ''http://example.com/register.pdf'' exPage
         ([ReadingPage 1 1], []) \<and>
   last (sort_key readingOrder exPage) = exReceivedDate \<and>
   \<not> lessThan1000 (Number (text exReceivedDate)) \<and>
   pageElements exPage = exPage"
proof -
  have ne: "exItems \<noteq> []"
    by (simp add: exItems_def)
  have srt: "sort_key readingOrder exItems = exPage @ [exPageNumber]"
    by code_simp
  then have lst: "last (sort_key readingOrder exItems) = exPageNumber"
    by simp
  have num: "list_ex isDigit (text exPageNumber) \<and> lessThan1000 (Number (text exPageNumber))"
    by code_simp
  note rule = page_number_removed [of exItems exSuburbNames "''2018-10-20''"
      "''http://example.com/register.pdf''" 0 1 "([], [])"]
  from rule ne lst num
  have removed: "pageElements exItems @ [exPageNumber] = sort_key readingOrder exItems"
    by simp
  with srt have rest: "pageElements exItems = exPage"
    by simp
  from rule ne rest
  have page: "parsePage exSuburbNames ''2018-10-20'' ''http://example.com/register.pdf'' 0 1
        exItems ([], [])
     = parsePageElements exSuburbNames ''2018-10-20'' ''http://example.com/register.pdf'' exPage
         ([ReadingPage 1 1], [])"
    by simp
  have ne2: "exPage \<noteq> []"
    by (simp add: exPage_def)
  have srt2: "sort_key readingOrder exPage = exPage"
    by code_simp
  have lst2: "last (sort_key readingOrder exPage) = exReceivedDate"
    unfolding srt2 by (simp add: exPage_def exBand_def)
  have num2: "\<not> lessThan1000 (Number (text exReceivedDate))"
    by code_simp
  from page_number_removed [of exPage] ne2 lst2 num2 srt2
  have keep: "pageElements exPage = exPage"
    by simp
  show ?thesis
    using ne lst num removed rest page lst2 num2 keep by blast
qed

end
